theory Spec2Isabelle
  imports Main "HOL-Library.Word"
begin

section \<open>Measurements and instruments\<close>

text \<open>
  The telemetry code of the backend only ever emits measurements: \<open>Add\<close> on a counter or
  an up/down counter, \<open>Record\<close> on a histogram. The model keeps every emission, in order,
  in a log; the exported value of an up/down counter series is the sum of the values added
  to it (cumulative aggregation of the metrics SDK).
\<close>

type_synonym int64 = "64 word"

text \<open>\<open>time.Duration\<close>: elapsed nanoseconds. A histogram records its \<open>Seconds()\<close>.\<close>

type_synonym duration = int

datatype attr_value = AString string | AInt int | ABool bool

type_synonym attr = "string \<times> attr_value"

text \<open>The package-level instrument variables of the telemetry file.\<close>

datatype var =
    requestCount | latency | requestSize | responseSize | activeRequests
  | dbOperations | dbOperationLatency | dbConnectionsOpen
  | taskCount | completedTaskCount
  | memoryUsage | goroutineCount

datatype measurement =
    Add var int64 "attr list"
  | RecordInt64 var int64 "attr list"
  | RecordSeconds var duration "attr list"

text \<open>An instrument as the meter creates it: its kind, name, description and unit.\<close>

datatype kind = Int64Counter | Float64Histogram | Int64Histogram | Int64UpDownCounter

record instrument =
  inst_kind :: kind
  inst_name :: string
  inst_description :: string
  inst_unit :: string

section \<open>The persistence layer\<close>

text \<open>
  Modelled from the spec: the declaration of the \<open>Task\<close> type is not among the sources.
  The record has the fields the handlers and queries name: the primary key, \<open>Title\<close>,
  \<open>Completed\<close> and the \<open>created_at\<close> column.
\<close>

record Task =
  ID :: int
  Title :: string
  Completed :: bool
  CreatedAt :: nat

datatype error = ErrRecordNotFound | ErrDatabase

text \<open>
  The resource store the spec treats as an external collaborator (create, read, update,
  delete, count on task records): a table of rows in insertion order, the next primary key,
  and, for the statements still to come, whether the database fails each of them (a
  statement beyond the end of that list succeeds).
\<close>

record store =
  rows :: "Task list"
  next_id :: int
  faults :: "bool list"

definition failing :: "store \<Rightarrow> bool" where
  "failing s = (case faults s of [] \<Rightarrow> False | b # bs \<Rightarrow> b)"

definition executed :: "store \<Rightarrow> store" where
  "executed s = s\<lparr>faults := tl (faults s)\<rparr>"

text \<open>\<open>DB.Create(&task)\<close>: inserts the row under a fresh primary key and writes the key and
  the creation time back into the task.\<close>

definition Create :: "nat \<Rightarrow> Task \<Rightarrow> store \<Rightarrow> (error option \<times> Task) \<times> store" where
  "Create now t s =
     (if failing s then ((Some ErrDatabase, t), executed s)
      else (let t' = t\<lparr>ID := next_id s, CreatedAt := now\<rparr>
            in ((None, t'),
                executed (s\<lparr>rows := rows s @ [t'], next_id := next_id s + 1\<rparr>))))"

text \<open>\<open>DB.First(&task, id)\<close>: the row with that primary key, \<open>ErrRecordNotFound\<close> without one.
  The destination keeps its zero value on an error.\<close>

definition zero_Task :: Task where
  "zero_Task = \<lparr>ID = 0, Title = [], Completed = False, CreatedAt = 0\<rparr>"

definition First :: "int \<Rightarrow> store \<Rightarrow> (error option \<times> Task) \<times> store" where
  "First i s =
     (if failing s then ((Some ErrDatabase, zero_Task), executed s)
      else (case find (\<lambda>t. ID t = i) (rows s) of
              None \<Rightarrow> ((Some ErrRecordNotFound, zero_Task), executed s)
            | Some t \<Rightarrow> ((None, t), executed s)))"

text \<open>\<open>DB.Save(&task)\<close>: writes every field of the task to the row with its primary key, and
  inserts the task when no row has that key.\<close>

definition Save :: "Task \<Rightarrow> store \<Rightarrow> (error option \<times> unit) \<times> store" where
  "Save t s =
     (if failing s then ((Some ErrDatabase, ()), executed s)
      else if list_ex (\<lambda>r. ID r = ID t) (rows s)
        then ((None, ()),
              executed (s\<lparr>rows := map (\<lambda>r. if ID r = ID t then t else r) (rows s)\<rparr>))
        else ((None, ()), executed (s\<lparr>rows := rows s @ [t]\<rparr>)))"

text \<open>\<open>DB.Delete(&Task{}, id)\<close>: removes the rows with that key; no row is not an error.\<close>

definition Delete :: "int \<Rightarrow> store \<Rightarrow> (error option \<times> unit) \<times> store" where
  "Delete i s =
     (if failing s then ((Some ErrDatabase, ()), executed s)
      else ((None, ()), executed (s\<lparr>rows := filter (\<lambda>r. ID r \<noteq> i) (rows s)\<rparr>)))"

text \<open>\<open>DB.Order("created_at desc").Find(&tasks)\<close>: the rows, newest first. Among rows
  created at the same time the database is free to choose; the model keeps the later
  inserted row first.\<close>

definition Find_ordered :: "store \<Rightarrow> (error option \<times> Task list) \<times> store" where
  "Find_ordered s =
     (if failing s then ((Some ErrDatabase, []), executed s)
      else ((None, rev (sort_key CreatedAt (rows s))), executed s))"

text \<open>\<open>DB.Model(&Task{}).[Where(...).]Count(&n)\<close>: the callers drop the returned error, so
  when the statement fails the variable keeps its zero value.\<close>

definition Count :: "(Task \<Rightarrow> bool) \<Rightarrow> store \<Rightarrow> int64 \<times> store" where
  "Count p s =
     (if failing s then (0, executed s)
      else (word_of_nat (length (filter p (rows s))), executed s))"

text \<open>The row stored under a primary key.\<close>

definition stored :: "int \<Rightarrow> store \<Rightarrow> Task option" where
  "stored i s = find (\<lambda>t. ID t = i) (rows s)"

section \<open>The process state\<close>

text \<open>Goroutines started with \<open>go\<close>.\<close>

datatype goroutine = GoCollectSystemMetrics | GoTrackDBConnections | GoUpdateTaskMetrics

record world =
  emitted :: "measurement list"
  DB :: store
  meter :: bool
  instruments :: "(var \<times> instrument) list"
  spawned :: "goroutine list"

definition emit :: "measurement \<Rightarrow> world \<Rightarrow> world" where
  "emit m w = w\<lparr>emitted := emitted w @ [m]\<rparr>"

definition go :: "goroutine \<Rightarrow> world \<Rightarrow> world" where
  "go g w = w\<lparr>spawned := spawned w @ [g]\<rparr>"

text \<open>The value a series of an up/down counter exports: the sum of what was added to the
  instrument under the same attribute set.\<close>

fun added :: "var \<Rightarrow> attr list \<Rightarrow> measurement \<Rightarrow> int64" where
  "added v as (Add v' x as') = (if v' = v \<and> set as' = set as then x else 0)"
| "added v as (RecordInt64 v' x as') = 0"
| "added v as (RecordSeconds v' d as') = 0"

definition gauge :: "var \<Rightarrow> attr list \<Rightarrow> world \<Rightarrow> int64" where
  "gauge v as w = sum_list (map (added v as) (emitted w))"

section \<open>Operation tracking\<close>

text \<open>
  \<open>TrackDBOperation(ctx, operation, f)\<close>. The unit of work \<open>f\<close> is a closure over the
  database handle and the caller's variables: it maps the store to the error it returns,
  the values it leaves in the captured variables, and the new store. \<open>elapsed\<close> is what
  \<open>time.Since(start)\<close> reads after \<open>f\<close> returned.
\<close>

definition TrackDBOperation ::
  "string \<Rightarrow> (store \<Rightarrow> (error option \<times> 'a) \<times> store) \<Rightarrow> duration \<Rightarrow> world
     \<Rightarrow> (error option \<times> 'a) \<times> world" where
  "TrackDBOperation operation f elapsed w =
     (let w1 = emit (Add dbOperations 1 [(''operation'', AString operation)]) w;
          ((err, captured), db') = f (DB w1);
          w2 = w1\<lparr>DB := db'\<rparr>;
          w3 = emit (RecordSeconds dbOperationLatency elapsed
                 [(''operation'', AString operation), (''success'', ABool (err = None))]) w2
      in ((err, captured), w3))"

section \<open>Domain-count refresh\<close>

text \<open>\<open>UpdateTaskMetrics(ctx)\<close>: counts the rows, then adds the negated count and the count to
  \<open>tasks_total\<close>; the same for the completed rows and \<open>tasks_completed_total\<close>.\<close>

definition UpdateTaskMetrics :: "world \<Rightarrow> world" where
  "UpdateTaskMetrics w =
     (let (totalCount, db1) = Count (\<lambda>t. True) (DB w);
          w1 = emit (Add taskCount (- totalCount) []) (w\<lparr>DB := db1\<rparr>);
          w2 = emit (Add taskCount totalCount []) w1;
          (completedCount, db2) = Count Completed (DB w2);
          w3 = emit (Add completedTaskCount (- completedCount) []) (w2\<lparr>DB := db2\<rparr>);
          w4 = emit (Add completedTaskCount completedCount []) w3
      in w4)"

text \<open>The scheduler runs a goroutine that a handler started with
  \<open>go UpdateTaskMetrics(...)\<close>; without one nothing happens.\<close>

definition run_refresh :: "world \<Rightarrow> world" where
  "run_refresh w =
     (if GoUpdateTaskMetrics \<in> set (spawned w)
      then UpdateTaskMetrics (w\<lparr>spawned := remove1 GoUpdateTaskMetrics (spawned w)\<rparr>)
      else w)"

section \<open>Route handlers\<close>

text \<open>
  What a handler reads from the request context: the method, the matched route, the
  declared body length, the \<open>:id\<close> path parameter, and the body as the JSON decoder sees
  it: no value when it is not a JSON object whose \<open>title\<close> is a string and whose
  \<open>completed\<close> is a boolean where present; a missing or null field is absent.
\<close>

record json_body =
  title :: "string option"
  completed :: "bool option"

record request =
  Method :: string
  FullPath :: string
  ContentLength :: int
  id_param :: string
  body :: "json_body option"

datatype payload = ErrorMessage string | TaskList "Task list" | OneTask Task | NoPayload

record reply =
  status :: int
  payload :: payload

text \<open>\<open>strconv.Atoi\<close>: an optional sign, then one or more decimal digits, within the range
  of a 64-bit \<open>int\<close>.\<close>

definition digit_of :: "char \<Rightarrow> nat option" where
  "digit_of c =
     (let n = (of_char c :: nat) in if 48 \<le> n \<and> n \<le> 57 then Some (n - 48) else None)"

fun parse_digits :: "string \<Rightarrow> nat \<Rightarrow> nat option" where
  "parse_digits [] acc = Some acc"
| "parse_digits (c # cs) acc =
     (case digit_of c of None \<Rightarrow> None | Some d \<Rightarrow> parse_digits cs (10 * acc + d))"

definition Atoi :: "string \<Rightarrow> int option" where
  "Atoi s =
     (let (neg, ds) =
            (case s of
               [] \<Rightarrow> (False, [])
             | c # cs \<Rightarrow>
                 if c = CHR ''-'' then (True, cs)
                 else if c = CHR ''+'' then (False, cs)
                 else (False, s))
      in if ds = [] then None
         else (case parse_digits ds 0 of
                 None \<Rightarrow> None
               | Some n \<Rightarrow>
                   (let v = (if neg then - int n else int n)
                    in if - (2 ^ 63) \<le> v \<and> v < 2 ^ 63 then Some v else None)))"

text \<open>\<open>c.ShouldBindJSON(&input)\<close> for \<open>CreateTaskInput\<close>
  (\<open>binding:"required,min=1,max=200"\<close> on the title) and for \<open>UpdateTaskInput\<close> (two
  optional fields, no validation).\<close>

definition bind_CreateTaskInput :: "json_body option \<Rightarrow> string option" where
  "bind_CreateTaskInput b =
     (case b of
        None \<Rightarrow> None
      | Some j \<Rightarrow>
          (case title j of
             None \<Rightarrow> None
           | Some t \<Rightarrow> if 1 \<le> length t \<and> length t \<le> 200 then Some t else None))"

definition bind_UpdateTaskInput :: "json_body option \<Rightarrow> json_body option" where
  "bind_UpdateTaskInput b = b"

definition getTasks :: "duration \<Rightarrow> world \<Rightarrow> reply \<times> world" where
  "getTasks d w =
     (let ((err, tasks), w1) = TrackDBOperation ''query_all_tasks'' Find_ordered d w
      in if err \<noteq> None
         then (\<lparr>status = 500, payload = ErrorMessage ''failed to fetch tasks''\<rparr>, w1)
         else (\<lparr>status = 200, payload = TaskList tasks\<rparr>, go GoUpdateTaskMetrics w1))"

definition createTask :: "request \<Rightarrow> nat \<Rightarrow> duration \<Rightarrow> world \<Rightarrow> reply \<times> world" where
  "createTask r now d w =
     (case bind_CreateTaskInput (body r) of
        None \<Rightarrow> (\<lparr>status = 400, payload = ErrorMessage ''invalid input''\<rparr>, w)
      | Some ttl \<Rightarrow>
          (let task = \<lparr>ID = 0, Title = ttl, Completed = False, CreatedAt = 0\<rparr>;
               ((err, task'), w1) = TrackDBOperation ''create_task'' (Create now task) d w
           in if err \<noteq> None
              then (\<lparr>status = 500, payload = ErrorMessage ''failed to create task''\<rparr>, w1)
              else (\<lparr>status = 201, payload = OneTask task'\<rparr>, go GoUpdateTaskMetrics w1)))"

definition updateTask :: "request \<Rightarrow> duration \<Rightarrow> duration \<Rightarrow> world \<Rightarrow> reply \<times> world" where
  "updateTask r d1 d2 w =
     (case Atoi (id_param r) of
        None \<Rightarrow> (\<lparr>status = 400, payload = ErrorMessage ''invalid id''\<rparr>, w)
      | Some i \<Rightarrow>
          (let ((err, task), w1) = TrackDBOperation ''find_task'' (First i) d1 w
           in if err \<noteq> None
              then (\<lparr>status = 404, payload = ErrorMessage ''task not found''\<rparr>, w1)
              else
                (case bind_UpdateTaskInput (body r) of
                   None \<Rightarrow> (\<lparr>status = 400, payload = ErrorMessage ''invalid input''\<rparr>, w1)
                 | Some input \<Rightarrow>
                     (let task1 = (case title input of
                                     Some t \<Rightarrow> task\<lparr>Title := t\<rparr>
                                   | None \<Rightarrow> task);
                          task2 = (case completed input of
                                     Some c \<Rightarrow> task1\<lparr>Completed := c\<rparr>
                                   | None \<Rightarrow> task1);
                          ((err2, u), w2) =
                             TrackDBOperation ''update_task'' (Save task2) d2 w1
                      in if err2 \<noteq> None
                         then (\<lparr>status = 500,
                                payload = ErrorMessage ''failed to update task''\<rparr>, w2)
                         else (\<lparr>status = 200, payload = OneTask task2\<rparr>,
                               go GoUpdateTaskMetrics w2)))))"

definition deleteTask :: "request \<Rightarrow> duration \<Rightarrow> world \<Rightarrow> reply \<times> world" where
  "deleteTask r d w =
     (case Atoi (id_param r) of
        None \<Rightarrow> (\<lparr>status = 400, payload = ErrorMessage ''invalid id''\<rparr>, w)
      | Some i \<Rightarrow>
          (let ((err, u), w1) = TrackDBOperation ''delete_task'' (Delete i) d w
           in if err \<noteq> None
              then (\<lparr>status = 500, payload = ErrorMessage ''failed to delete task''\<rparr>, w1)
              else (\<lparr>status = 204, payload = NoPayload\<rparr>, go GoUpdateTaskMetrics w1)))"

section \<open>Request middleware\<close>

text \<open>
  What the rest of the pipeline (\<open>c.Next()\<close>) does to the middleware: it returns, leaving
  a status and a byte count in the response writer, or it panics and the panic unwinds
  through the middleware's frame to the recovery handler further out.
\<close>

record writer =
  Status :: int
  Size :: int

datatype 'a outcome = Returned 'a | Panicked

definition MetricsMiddleware ::
  "request \<Rightarrow> (world \<Rightarrow> writer outcome \<times> world) \<Rightarrow> duration \<Rightarrow> world
     \<Rightarrow> writer outcome \<times> world" where
  "MetricsMiddleware r next elapsed w =
     (let w1 = emit (Add activeRequests 1 []) w;
          w2 = (if ContentLength r > 0
                then emit (RecordInt64 requestSize (word_of_int (ContentLength r))
                       [(''method'', AString (Method r)), (''path'', AString (FullPath r))]) w1
                else w1)
      in (case next w2 of
            (Panicked, w3) \<Rightarrow> (Panicked, w3)
          | (Returned c, w3) \<Rightarrow>
              (let attrs = [(''method'', AString (Method r)),
                            (''path'', AString (FullPath r)),
                            (''status'', AInt (Status c))];
                   w4 = emit (Add requestCount 1 attrs) w3;
                   w5 = emit (RecordSeconds latency elapsed attrs) w4;
                   w6 = emit (RecordInt64 responseSize (word_of_int (Size c)) attrs) w5;
                   w7 = emit (Add activeRequests (- 1) []) w6
               in (Returned c, w7))))"

text \<open>A burst of requests through the middleware, one after the other; each has its own
  downstream handler and elapsed time. Additions to a series commute, so the sum the gauge
  exports after the burst does not depend on how concurrent requests interleave.\<close>

fun serve_all ::
  "(request \<times> (world \<Rightarrow> writer outcome \<times> world) \<times> duration) list \<Rightarrow> world \<Rightarrow> world" where
  "serve_all [] w = w"
| "serve_all ((r, next, elapsed) # rs) w =
     serve_all rs (snd (MetricsMiddleware r next elapsed w))"

section \<open>Periodic samplers\<close>

text \<open>What one tick of the process sampler reads: \<open>memStats.Alloc\<close> and the three calls of
  \<open>runtime.NumGoroutine()\<close>, in evaluation order.\<close>

record sample =
  Alloc :: "64 word"
  NumGoroutine1 :: int
  NumGoroutine2 :: int
  NumGoroutine3 :: int

text \<open>\<open>collectSystemMetrics(ctx)\<close>: the loop body runs once per tick of its 15 second
  ticker until the context is done; the list holds the readings of the ticks that fire.\<close>

fun collectSystemMetrics :: "sample list \<Rightarrow> world \<Rightarrow> world" where
  "collectSystemMetrics [] w = w"
| "collectSystemMetrics (s # ticks) w =
     (let w1 = emit (Add memoryUsage (Alloc s) [(''type'', AString ''heap'')]) w;
          w2 = emit (Add goroutineCount
                 (word_of_int (NumGoroutine1 s) - word_of_int (NumGoroutine2 s))
                 [(''type'', AString ''user'')]) w1;
          w3 = emit (Add goroutineCount (word_of_int (NumGoroutine3 s))
                 [(''type'', AString ''user'')]) w2
      in collectSystemMetrics ticks w3)"

text \<open>\<open>sql.DBStats\<close>, the fields the pool sampler reads.\<close>

record DBStats =
  OpenConnections :: int
  Idle :: int
  InUse :: int
  MaxOpenConnections :: int

text \<open>\<open>trackDBConnections(ctx, db)\<close>: once per tick of its 10 second ticker.\<close>

fun trackDBConnections :: "DBStats list \<Rightarrow> world \<Rightarrow> world" where
  "trackDBConnections [] w = w"
| "trackDBConnections (stats # ticks) w =
     (let w1 = emit (Add dbConnectionsOpen (- word_of_int (OpenConnections stats)) []) w;
          w2 = emit (Add dbConnectionsOpen (word_of_int (OpenConnections stats)) []) w1;
          w3 = emit (Add dbConnectionsOpen 0
                 [(''idle'', AInt (Idle stats)), (''in_use'', AInt (InUse stats)),
                  (''max_open'', AInt (MaxOpenConnections stats))]) w2
      in trackDBConnections ticks w3)"

section \<open>Instrument registration\<close>

text \<open>
  The calls of start-up that can return an error; \<open>fails c\<close> says that call \<open>c\<close> does.
  Every such error ends in \<open>log.Fatalf\<close>, which exits the process at once; the model
  returns the logged message as \<open>Inl\<close>.
\<close>

datatype call =
    GormOpen | AutoMigrate | UsePlugin | SqlDB_initDB
  | TraceDial | TraceExporter | MetricsDial | MetricsExporter
  | NewInstrument var | SqlDB_main

text \<open>The twelve declarations of \<open>initializeMetrics\<close> in source order: the variable
  assigned, the instrument asked of the meter, and the message logged when the meter
  refuses it.\<close>

definition declarations :: "(var \<times> instrument \<times> string) list" where
  "declarations =
     [(requestCount,
       \<lparr>inst_kind = Int64Counter, inst_name = ''http_requests_total'',
        inst_description = ''Total number of HTTP requests'', inst_unit = ''{request}''\<rparr>,
       ''Failed to create request counter''),
      (latency,
       \<lparr>inst_kind = Float64Histogram, inst_name = ''http_request_duration_seconds'',
        inst_description = ''HTTP request duration in seconds'', inst_unit = ''s''\<rparr>,
       ''Failed to create latency histogram''),
      (requestSize,
       \<lparr>inst_kind = Int64Histogram, inst_name = ''http_request_size_bytes'',
        inst_description = ''HTTP request size in bytes'', inst_unit = ''By''\<rparr>,
       ''Failed to create request size histogram''),
      (responseSize,
       \<lparr>inst_kind = Int64Histogram, inst_name = ''http_response_size_bytes'',
        inst_description = ''HTTP response size in bytes'', inst_unit = ''By''\<rparr>,
       ''Failed to create response size histogram''),
      (activeRequests,
       \<lparr>inst_kind = Int64UpDownCounter, inst_name = ''http_active_requests'',
        inst_description = ''Number of active HTTP requests'', inst_unit = ''{request}''\<rparr>,
       ''Failed to create active requests counter''),
      (dbOperations,
       \<lparr>inst_kind = Int64Counter, inst_name = ''db_operations_total'',
        inst_description = ''Total number of database operations'',
        inst_unit = ''{operation}''\<rparr>,
       ''Failed to create db operations counter''),
      (dbOperationLatency,
       \<lparr>inst_kind = Float64Histogram, inst_name = ''db_operation_duration_seconds'',
        inst_description = ''Duration of database operations in seconds'',
        inst_unit = ''s''\<rparr>,
       ''Failed to create db latency histogram''),
      (dbConnectionsOpen,
       \<lparr>inst_kind = Int64UpDownCounter, inst_name = ''db_connections_open'',
        inst_description = ''Number of open database connections'',
        inst_unit = ''{connection}''\<rparr>,
       ''Failed to create db connections counter''),
      (taskCount,
       \<lparr>inst_kind = Int64UpDownCounter, inst_name = ''tasks_total'',
        inst_description = ''Total number of tasks in the system'', inst_unit = ''{task}''\<rparr>,
       ''Failed to create task counter''),
      (completedTaskCount,
       \<lparr>inst_kind = Int64UpDownCounter, inst_name = ''tasks_completed_total'',
        inst_description = ''Number of completed tasks'', inst_unit = ''{task}''\<rparr>,
       ''Failed to create completed task counter''),
      (memoryUsage,
       \<lparr>inst_kind = Int64UpDownCounter, inst_name = ''memory_usage_bytes'',
        inst_description = ''Memory usage of the application in bytes'',
        inst_unit = ''By''\<rparr>,
       ''Failed to create memory usage counter''),
      (goroutineCount,
       \<lparr>inst_kind = Int64UpDownCounter, inst_name = ''goroutine_count'',
        inst_description = ''Number of goroutines'', inst_unit = ''{goroutine}''\<rparr>,
       ''Failed to create goroutine counter'')]"

fun register_all ::
  "(call \<Rightarrow> bool) \<Rightarrow> (var \<times> instrument \<times> string) list \<Rightarrow> (var \<times> instrument) list
     \<Rightarrow> string + (var \<times> instrument) list" where
  "register_all fails [] reg = Inr reg"
| "register_all fails ((v, i, msg) # ds) reg =
     (if fails (NewInstrument v) then Inl msg else register_all fails ds (reg @ [(v, i)]))"

definition initializeMetrics :: "(call \<Rightarrow> bool) \<Rightarrow> string + (var \<times> instrument) list" where
  "initializeMetrics fails = register_all fails declarations []"

text \<open>The name and unit of each registered instrument, in registration order.\<close>

definition names_and_units :: "(var \<times> instrument) list \<Rightarrow> (string \<times> string) list" where
  "names_and_units reg = map (\<lambda>(v, i). (inst_name i, inst_unit i)) reg"

section \<open>Start-up and shutdown\<close>

text \<open>\<open>getEnv(key, def)\<close> over \<open>os.LookupEnv\<close>.\<close>

definition getEnv :: "(string \<Rightarrow> string option) \<Rightarrow> string \<Rightarrow> string \<Rightarrow> string" where
  "getEnv lookup key def =
     (case lookup key of None \<Rightarrow> def | Some val \<Rightarrow> if val = [] then def else val)"

text \<open>\<open>initDB()\<close>: connects, migrates, adds the tracing plugin and configures the pool; it
  records the open connections only when the meter is already set.\<close>

definition initDB ::
  "(call \<Rightarrow> bool) \<Rightarrow> (string \<Rightarrow> string option) \<Rightarrow> DBStats \<Rightarrow> world \<Rightarrow> string + world" where
  "initDB fails lookup stats w =
     (let dbHost = getEnv lookup ''DB_HOST'' ''localhost'';
          dbName = getEnv lookup ''DB_NAME'' ''taskboard''
      in if fails GormOpen then Inl ''failed to connect database''
         else if fails AutoMigrate then Inl ''failed to migrate database''
         else if fails UsePlugin then Inl ''failed to add OTEL instrumentation to GORM''
         else if fails SqlDB_initDB then Inl ''failed to get database connection''
         else Inr (if meter w
                   then emit (Add dbConnectionsOpen (word_of_int (OpenConnections stats))
                          [(''db_name'', AString dbName), (''db_host'', AString dbHost)]) w
                   else w))"

text \<open>The functions \<open>initTracer\<close> and \<open>initMetrics\<close> return: closures that shut the trace
  provider, respectively the meter provider, down.\<close>

datatype shutdown = shutdownTracer | shutdownMetrics

definition initTracer :: "(call \<Rightarrow> bool) \<Rightarrow> world \<Rightarrow> string + (shutdown \<times> world)" where
  "initTracer fails w =
     (if fails TraceDial then Inl ''OTEL trace dial failed''
      else if fails TraceExporter then Inl ''OTEL trace exporter failed''
      else Inr (shutdownTracer, w))"

definition initMetrics :: "(call \<Rightarrow> bool) \<Rightarrow> world \<Rightarrow> string + (shutdown \<times> world)" where
  "initMetrics fails w =
     (if fails MetricsDial then Inl ''OTEL metrics dial failed''
      else if fails MetricsExporter then Inl ''OTEL metrics exporter failed''
      else (case initializeMetrics fails of
              Inl msg \<Rightarrow> Inl msg
            | Inr reg \<Rightarrow>
                Inr (shutdownMetrics,
                     go GoCollectSystemMetrics (w\<lparr>meter := True, instruments := reg\<rparr>))))"

text \<open>
  \<open>main()\<close> up to \<open>r.Run\<close>: the state the server starts with and the stack of deferred calls,
  the call deferred last at its head. A fatal error exits without running any of them.
\<close>

definition main ::
  "(call \<Rightarrow> bool) \<Rightarrow> (string \<Rightarrow> string option) \<Rightarrow> DBStats \<Rightarrow> world
     \<Rightarrow> string + (world \<times> shutdown list)" where
  "main fails lookup stats w0 =
     (case initDB fails lookup stats w0 of
        Inl msg \<Rightarrow> Inl msg
      | Inr w1 \<Rightarrow>
          (case initTracer fails w1 of
             Inl msg \<Rightarrow> Inl msg
           | Inr (shutdownT, w2) \<Rightarrow>
               (let deferred1 = [shutdownT]
                in (case initMetrics fails w2 of
                      Inl msg \<Rightarrow> Inl msg
                    | Inr (shutdownM, w3) \<Rightarrow>
                        (let deferred2 = shutdownM # deferred1
                         in if fails SqlDB_main
                            then Inl ''Failed to get database connection''
                            else (let w4 = go GoTrackDBConnections w3;
                                      w5 = UpdateTaskMetrics w4
                                  in Inr (w5, deferred2)))))))"

text \<open>The provider calls made while the process ends, in the order they are made: when
  \<open>r.Run\<close> returns, \<open>main\<close> returns and its deferred calls run from the top of the stack.\<close>

datatype provider_call = TracerProvider_Shutdown | MeterProvider_Shutdown

fun call_of :: "shutdown \<Rightarrow> provider_call" where
  "call_of shutdownTracer = TracerProvider_Shutdown"
| "call_of shutdownMetrics = MeterProvider_Shutdown"

definition shutdown_calls ::
  "(call \<Rightarrow> bool) \<Rightarrow> (string \<Rightarrow> string option) \<Rightarrow> DBStats \<Rightarrow> world \<Rightarrow> provider_call list" where
  "shutdown_calls fails lookup stats w0 =
     (case main fails lookup stats w0 of
        Inl msg \<Rightarrow> []
      | Inr (w, deferred) \<Rightarrow> map call_of deferred)"

text \<open>\<open>a\<close> completes before \<open>b\<close> begins in a sequence of calls.\<close>

definition before :: "'a \<Rightarrow> 'a \<Rightarrow> 'a list \<Rightarrow> bool" where
  "before a b xs =
     (case dropWhile (\<lambda>x. x \<noteq> a) xs of [] \<Rightarrow> False | x # rest \<Rightarrow> b \<in> set rest)"

text \<open>The process as the operating system hands it to \<open>main\<close>: nothing emitted, no meter, no
  goroutine besides the main one, and the database as it is.\<close>

definition fresh :: "store \<Rightarrow> world" where
  "fresh s = \<lparr>emitted = [], DB = s, meter = False, instruments = [], spawned = []\<rparr>"

definition empty_store :: store where
  "empty_store = \<lparr>rows = [], next_id = 1, faults = []\<rparr>"

section \<open>The running service\<close>

text \<open>
  What happens to the process after start-up: a sampler's ticker fires (only a sampler
  that was started runs), the scheduler runs a refresh a handler started, or one of the
  four task routes handles a request.
\<close>

datatype event =
    ProcessTick sample
  | PoolTick DBStats
  | Scheduled
  | GET_tasks duration
  | POST_tasks request nat duration
  | PUT_task request duration duration
  | DELETE_task request duration

fun step :: "event \<Rightarrow> world \<Rightarrow> world" where
  "step (ProcessTick s) w =
     (if GoCollectSystemMetrics \<in> set (spawned w) then collectSystemMetrics [s] w else w)"
| "step (PoolTick stats) w =
     (if GoTrackDBConnections \<in> set (spawned w) then trackDBConnections [stats] w else w)"
| "step Scheduled w = run_refresh w"
| "step (GET_tasks d) w = snd (getTasks d w)"
| "step (POST_tasks r now d) w = snd (createTask r now d w)"
| "step (PUT_task r d1 d2) w = snd (updateTask r d1 d2 w)"
| "step (DELETE_task r d) w = snd (deleteTask r d w)"

fun run :: "event list \<Rightarrow> world \<Rightarrow> world" where
  "run [] w = w"
| "run (e # es) w = run es (step e w)"

text \<open>The measurements published on the two domain-count gauges.\<close>

fun on_task_gauge :: "measurement \<Rightarrow> bool" where
  "on_task_gauge (Add v x as) = (v = taskCount \<or> v = completedTaskCount)"
| "on_task_gauge (RecordInt64 v x as) = False"
| "on_task_gauge (RecordSeconds v d as) = False"

definition task_publications :: "world \<Rightarrow> measurement list" where
  "task_publications w = filter on_task_gauge (emitted w)"

text \<open>The task \<open>updateTask\<close> hands to \<open>Save\<close>: the task it read, with the fields that are
  present in the input overwritten.\<close>

definition patched :: "json_body \<Rightarrow> Task \<Rightarrow> Task" where
  "patched input t =
     (let task1 = (case title input of Some x \<Rightarrow> t\<lparr>Title := x\<rparr> | None \<Rightarrow> t)
      in (case completed input of Some c \<Rightarrow> task1\<lparr>Completed := c\<rparr> | None \<Rightarrow> task1))"

section \<open>Concrete runs\<close>

text \<open>A start-up in which no call fails and no environment variable is set, on a pool
  without open connections.\<close>

definition idle_pool :: DBStats where
  "idle_pool = \<lparr>OpenConnections = 0, Idle = 0, InUse = 0, MaxOpenConnections = 20\<rparr>"

definition started :: "store \<Rightarrow> world" where
  "started s =
     (case main (\<lambda>c. False) (\<lambda>k. None) idle_pool (fresh s) of
        Inl msg \<Rightarrow> fresh s
      | Inr (w, deferred) \<Rightarrow> w)"

text \<open>Three requests: create a task titled \<open>a\<close>, mark task 1 completed, delete task 1.\<close>

definition post_a :: request where
  "post_a =
     \<lparr>Method = ''POST'', FullPath = ''/api/tasks'', ContentLength = 13, id_param = [],
      body = Some \<lparr>title = Some ''a'', completed = None\<rparr>\<rparr>"

definition put_done :: request where
  "put_done =
     \<lparr>Method = ''PUT'', FullPath = ''/api/tasks/:id'', ContentLength = 18, id_param = ''1'',
      body = Some \<lparr>title = None, completed = Some True\<rparr>\<rparr>"

definition delete_1 :: request where
  "delete_1 =
     \<lparr>Method = ''DELETE'', FullPath = ''/api/tasks/:id'', ContentLength = 0, id_param = ''1'',
      body = None\<rparr>"

text \<open>Readings of the samplers: 100 bytes of heap and 5 goroutines; 3 open connections.\<close>

definition reading :: sample where
  "reading = \<lparr>Alloc = 100, NumGoroutine1 = 5, NumGoroutine2 = 5, NumGoroutine3 = 5\<rparr>"

definition busy_pool :: DBStats where
  "busy_pool = \<lparr>OpenConnections = 3, Idle = 1, InUse = 2, MaxOpenConnections = 20\<rparr>"

text \<open>A table that holds one task, not completed.\<close>

definition task_a :: Task where
  "task_a = \<lparr>ID = 1, Title = ''a'', Completed = False, CreatedAt = 7\<rparr>"

definition one_task :: store where
  "one_task = \<lparr>rows = [task_a], next_id = 2, faults = []\<rparr>"

text \<open>The started process over that table, when the database fails the next statement.\<close>

definition refused :: world where
  "refused = (started one_task)\<lparr>DB := one_task\<lparr>faults := [True]\<rparr>\<rparr>"

text \<open>The list of exported names and units as the specification words it.\<close>

definition spec_names_and_units :: "(string \<times> string) list" where
  "spec_names_and_units =
     [(''http_requests_total'', ''{request}''),
      (''http_request_duration_seconds'', ''s''),
      (''http_request_size_bytes'', ''bytes''),
      (''http_response_size_bytes'', ''bytes''),
      (''http_active_requests'', ''{request}''),
      (''db_operations_total'', ''{operation}''),
      (''db_operation_duration_seconds'', ''s''),
      (''db_connections_open'', ''{connection}''),
      (''tasks_total'', ''{task}''),
      (''tasks_completed_total'', ''{task}''),
      (''memory_usage_bytes'', ''bytes''),
      (''goroutine_count'', ''{goroutine}'')]"

section \<open>Basic facts about the state\<close>

lemma gauge_emit: "gauge v as (emit m w) = gauge v as w + added v as m"
  by (simp add: gauge_def emit_def)

lemma gauge_go: "gauge v as (go g w) = gauge v as w"
  by (simp add: gauge_def go_def)

lemma gauge_spawned_update: "gauge v as (w\<lparr>spawned := gs\<rparr>) = gauge v as w"
  by (simp add: gauge_def)

lemma gauge_DB_update: "gauge v as (w\<lparr>DB := s\<rparr>) = gauge v as w"
  by (simp add: gauge_def)

lemma DB_emit: "DB (emit m w) = DB w"
  by (simp add: emit_def)

lemma DB_go: "DB (go g w) = DB w"
  by (simp add: go_def)

lemma spawned_emit: "spawned (emit m w) = spawned w"
  by (simp add: emit_def)

lemma spawned_go: "spawned (go g w) = spawned w @ [g]"
  by (simp add: go_def)

lemma rows_executed: "rows (executed s) = rows s"
  by (simp add: executed_def)

lemma executed_no_faults: "faults s = [] \<Longrightarrow> executed s = s"
  by (simp add: executed_def)

lemma failing_no_faults: "faults s = [] \<Longrightarrow> \<not> failing s"
  by (simp add: failing_def)

lemma task_publications_emit:
  "task_publications (emit m w) = task_publications w @ (if on_task_gauge m then [m] else [])"
  by (simp add: task_publications_def emit_def)

lemma task_publications_go: "task_publications (go g w) = task_publications w"
  by (simp add: task_publications_def go_def)

lemma task_publications_spawned_update:
  "task_publications (w\<lparr>spawned := gs\<rparr>) = task_publications w"
  by (simp add: task_publications_def)

lemma task_publications_DB_update:
  "task_publications (w\<lparr>DB := s\<rparr>) = task_publications w"
  by (simp add: task_publications_def)

section \<open>Claims C4 and C7: operation tracking\<close>

lemma TrackDBOperation_result:
  "fst (TrackDBOperation operation f d w) = fst (f (DB w))"
  "DB (snd (TrackDBOperation operation f d w)) = snd (f (DB w))"
  "spawned (snd (TrackDBOperation operation f d w)) = spawned w"
  by (simp_all add: TrackDBOperation_def Let_def emit_def split_beta)

lemma gauge_TrackDBOperation:
  "v \<noteq> dbOperations \<Longrightarrow> gauge v as (snd (TrackDBOperation operation f d w)) = gauge v as w"
  by (simp add: TrackDBOperation_def Let_def gauge_def emit_def split_beta)

lemma task_publications_TrackDBOperation:
  "task_publications (snd (TrackDBOperation operation f d w)) = task_publications w"
  by (simp add: TrackDBOperation_def Let_def split_beta task_publications_def emit_def)

text \<open>
  Claim C4. Every invocation of \<open>TrackDBOperation\<close> whose unit of work returns appends to
  the emission log exactly two measurements: one increment by 1 of the db-operations
  counter tagged with the operation, and one observation of the db-operation-latency
  histogram tagged with the operation and with \<open>success\<close>, which is true exactly when the
  returned error is nil. This holds whatever error the unit of work returns.
\<close>

theorem TrackDBOperation_emits_once:
  "emitted (snd (TrackDBOperation operation f elapsed w)) =
     emitted w @
       [Add dbOperations 1 [(''operation'', AString operation)],
        RecordSeconds dbOperationLatency elapsed
          [(''operation'', AString operation),
           (''success'', ABool (fst (fst (f (DB w))) = None))]]"
  by (simp add: TrackDBOperation_def emit_def Let_def split_beta)

text \<open>
  Claim C7. \<open>TrackDBOperation\<close> hands the result of the unit of work to its caller
  unchanged: the error it returns is the error \<open>f\<close> returned, the captured variables are as
  \<open>f\<close> left them, and the store is the one a single run of \<open>f\<close> produced (no retry).
\<close>

theorem TrackDBOperation_returns_unchanged:
  "fst (TrackDBOperation operation f elapsed w) = fst (f (DB w)) \<and>
   DB (snd (TrackDBOperation operation f elapsed w)) = snd (f (DB w))"
  by (simp add: TrackDBOperation_def emit_def Let_def split_beta)

section \<open>The domain-count gauges\<close>

text \<open>A refresh adds the negated count and then the count: it leaves every exported sum
  where it was.\<close>

lemma gauge_UpdateTaskMetrics: "gauge v as (UpdateTaskMetrics w) = gauge v as w"
  by (simp add: UpdateTaskMetrics_def Let_def split_beta gauge_emit gauge_DB_update)

lemma rows_UpdateTaskMetrics: "rows (DB (UpdateTaskMetrics w)) = rows (DB w)"
  by (simp add: UpdateTaskMetrics_def Let_def split_beta DB_emit Count_def rows_executed)

lemma DB_UpdateTaskMetrics_no_faults:
  "faults (DB w) = [] \<Longrightarrow> DB (UpdateTaskMetrics w) = DB w"
  by (simp add: UpdateTaskMetrics_def Let_def split_beta DB_emit Count_def executed_no_faults
      failing_no_faults)

lemma spawned_UpdateTaskMetrics: "spawned (UpdateTaskMetrics w) = spawned w"
  by (simp add: UpdateTaskMetrics_def Let_def split_beta spawned_emit)

lemma task_publications_UpdateTaskMetrics:
  "task_publications (UpdateTaskMetrics w) =
     task_publications w @
       [Add taskCount (- fst (Count (\<lambda>t. True) (DB w))) [],
        Add taskCount (fst (Count (\<lambda>t. True) (DB w))) [],
        Add completedTaskCount (- fst (Count Completed (snd (Count (\<lambda>t. True) (DB w))))) [],
        Add completedTaskCount (fst (Count Completed (snd (Count (\<lambda>t. True) (DB w))))) []]"
  by (simp add: UpdateTaskMetrics_def Let_def split_beta task_publications_emit DB_emit
      task_publications_DB_update)

lemma gauge_run_refresh: "gauge v as (run_refresh w) = gauge v as w"
  by (simp add: run_refresh_def gauge_UpdateTaskMetrics gauge_spawned_update)

lemma DB_run_refresh_no_faults: "faults (DB w) = [] \<Longrightarrow> DB (run_refresh w) = DB w"
  by (simp add: run_refresh_def DB_UpdateTaskMetrics_no_faults)

lemma gauge_getTasks:
  "v \<noteq> dbOperations \<Longrightarrow> gauge v as (snd (getTasks d w)) = gauge v as w"
  by (simp add: getTasks_def Let_def split_beta gauge_go gauge_TrackDBOperation)

lemma gauge_createTask:
  "v \<noteq> dbOperations \<Longrightarrow> gauge v as (snd (createTask r now d w)) = gauge v as w"
  by (simp add: createTask_def Let_def split_beta gauge_go gauge_TrackDBOperation
      split: option.split)

lemma gauge_updateTask:
  "v \<noteq> dbOperations \<Longrightarrow> gauge v as (snd (updateTask r d1 d2 w)) = gauge v as w"
  by (simp add: updateTask_def Let_def split_beta gauge_go gauge_TrackDBOperation
      split: option.split)

lemma gauge_deleteTask:
  "v \<noteq> dbOperations \<Longrightarrow> gauge v as (snd (deleteTask r d w)) = gauge v as w"
  by (simp add: deleteTask_def Let_def split_beta gauge_go gauge_TrackDBOperation
      split: option.split)

lemma gauge_task_step:
  "v = taskCount \<or> v = completedTaskCount \<Longrightarrow> gauge v as (step e w) = gauge v as w"
  by (cases e)
     (auto simp: gauge_emit gauge_run_refresh gauge_getTasks gauge_createTask
        gauge_updateTask gauge_deleteTask Let_def)

text \<open>No tick, scheduled refresh or task request moves the exported value of a
  domain-count gauge.\<close>

lemma gauge_task_run:
  "v = taskCount \<or> v = completedTaskCount \<Longrightarrow> gauge v as (run es w) = gauge v as w"
  by (induction es arbitrary: w) (simp_all add: gauge_task_step)

section \<open>Start-up\<close>

lemma main_ok:
  "main (\<lambda>c. False) lookup stats (fresh s) =
     Inr (UpdateTaskMetrics (go GoTrackDBConnections (go GoCollectSystemMetrics
            ((fresh s)\<lparr>meter := True,
                       instruments := map (\<lambda>(v, i, m). (v, i)) declarations\<rparr>))),
          [shutdownMetrics, shutdownTracer])"
  by (simp add: main_def initDB_def initTracer_def initMetrics_def initializeMetrics_def
      declarations_def fresh_def Let_def)

lemma started_eq:
  "started s =
     UpdateTaskMetrics (go GoTrackDBConnections (go GoCollectSystemMetrics
       ((fresh s)\<lparr>meter := True, instruments := map (\<lambda>(v, i, m). (v, i)) declarations\<rparr>)))"
  by (simp add: started_def main_ok)

lemma gauge_started: "gauge v as (started s) = 0"
  by (simp add: started_eq gauge_UpdateTaskMetrics gauge_go) (simp add: gauge_def fresh_def)

lemma DB_started: "faults s = [] \<Longrightarrow> DB (started s) = s"
  by (simp add: started_eq DB_UpdateTaskMetrics_no_faults DB_go fresh_def)

lemma spawned_started: "spawned (started s) = [GoCollectSystemMetrics, GoTrackDBConnections]"
  by (simp add: started_eq spawned_UpdateTaskMetrics spawned_go fresh_def)

lemma task_publications_started:
  "task_publications (started empty_store) =
     [Add taskCount 0 [], Add taskCount 0 [], Add completedTaskCount 0 [],
      Add completedTaskCount 0 []]"
  by (simp add: started_eq task_publications_UpdateTaskMetrics task_publications_go DB_go)
     (simp add: task_publications_def fresh_def Count_def failing_def executed_def
        empty_store_def)

lemma Atoi_1: "Atoi ''1'' = Some 1"
  by (simp add: Atoi_def digit_of_def)

section \<open>Claim C1: the domain-count gauges after create, update and delete\<close>

lemma DB_after_create:
  "DB (run [POST_tasks post_a 7 3, Scheduled] (started empty_store)) = one_task"
proof -
  have "DB (snd (createTask post_a 7 3 (started empty_store))) = one_task"
    by (simp add: createTask_def post_a_def bind_CreateTaskInput_def Let_def split_beta
        TrackDBOperation_result DB_go DB_started Create_def empty_store_def one_task_def
        task_a_def failing_def executed_def)
  moreover have "faults one_task = []"
    by (simp add: one_task_def)
  ultimately show ?thesis
    by (simp add: DB_run_refresh_no_faults)
qed

lemma DB_after_update:
  "DB (run [POST_tasks post_a 7 3, Scheduled, PUT_task put_done 2 2, Scheduled]
        (started empty_store)) =
     \<lparr>rows = [task_a\<lparr>Completed := True\<rparr>], next_id = 2, faults = []\<rparr>"
proof -
  let ?w = "run [POST_tasks post_a 7 3, Scheduled] (started empty_store)"
  have "DB (snd (updateTask put_done 2 2 ?w)) =
      \<lparr>rows = [task_a\<lparr>Completed := True\<rparr>], next_id = 2, faults = []\<rparr>"
    using DB_after_create
    by (simp add: updateTask_def put_done_def Atoi_1 bind_UpdateTaskInput_def Let_def
        split_beta TrackDBOperation_result DB_go First_def Save_def one_task_def task_a_def
        failing_def executed_def del: run.simps)
  then have "DB (run_refresh (snd (updateTask put_done 2 2 ?w))) =
      \<lparr>rows = [task_a\<lparr>Completed := True\<rparr>], next_id = 2, faults = []\<rparr>"
    by (simp add: DB_run_refresh_no_faults del: run.simps)
  then show ?thesis
    by simp
qed

text \<open>
  Claim C1, evaluated on the code. On an empty table the service creates one task and the
  refresh the handler started runs: a direct count of the table gives 1, and the exported
  \<open>tasks_total\<close> is 0. The task is then marked completed and the refresh runs again: a
  direct count of the completed rows gives 1, and the exported \<open>tasks_completed_total\<close> is
  0. The claim asks for 1 in both places.
\<close>

theorem task_gauges_do_not_follow_counts:
  "fst (Count (\<lambda>t. True)
         (DB (run [POST_tasks post_a 7 3, Scheduled] (started empty_store)))) = 1 \<and>
   gauge taskCount [] (run [POST_tasks post_a 7 3, Scheduled] (started empty_store)) = 0 \<and>
   fst (Count Completed
         (DB (run [POST_tasks post_a 7 3, Scheduled, PUT_task put_done 2 2, Scheduled]
                (started empty_store)))) = 1 \<and>
   gauge completedTaskCount []
     (run [POST_tasks post_a 7 3, Scheduled, PUT_task put_done 2 2, Scheduled]
        (started empty_store)) = 0"
proof -
  have "fst (Count (\<lambda>t. True)
         (DB (run [POST_tasks post_a 7 3, Scheduled] (started empty_store)))) = 1"
    by (simp only: DB_after_create) (simp add: Count_def one_task_def failing_def)
  moreover have "fst (Count Completed
         (DB (run [POST_tasks post_a 7 3, Scheduled, PUT_task put_done 2 2, Scheduled]
                (started empty_store)))) = 1"
    by (simp only: DB_after_update) (simp add: Count_def failing_def task_a_def)
  ultimately show ?thesis
    by (simp add: gauge_task_run gauge_started del: run.simps)
qed

text \<open>The same for every run: whatever ticks, refreshes and task requests follow a
  start-up, both gauges export 0.\<close>

lemma task_gauges_stay_zero:
  "gauge taskCount as (run es (started s)) = 0 \<and>
   gauge completedTaskCount as (run es (started s)) = 0"
  by (simp add: gauge_task_run gauge_started)

section \<open>Claim C2: the active-request gauge\<close>

text \<open>Where the rest of the pipeline returns, the increment is paired with the decrement.\<close>

lemma active_requests_paired_on_return:
  "gauge activeRequests [] (serve_all [(r, \<lambda>w. (Returned c, w), d)] w) =
     gauge activeRequests [] w"
  by (simp add: MetricsMiddleware_def Let_def gauge_emit)

text \<open>
  Claim C2, evaluated on the code. A burst of one request whose downstream handler panics
  leaves \<open>http_active_requests\<close> one above its value before the burst: the decrement, like
  everything after \<open>c.Next()\<close>, is skipped. The claim asks for the value before the burst.
\<close>

theorem active_requests_leak_on_panic:
  "gauge activeRequests [] (serve_all [(r, \<lambda>w. (Panicked, w), d)] w) =
     gauge activeRequests [] w + 1"
  by (simp add: MetricsMiddleware_def Let_def gauge_emit)

section \<open>Claim C3: the order of shutdown\<close>

text \<open>
  Claim C3 as stated fails. After a start-up in which nothing fails, the trace provider is
  not shut down before the meter provider.
\<close>

theorem tracer_not_shut_down_first:
  "\<not> before TracerProvider_Shutdown MeterProvider_Shutdown
        (shutdown_calls (\<lambda>c. False) (\<lambda>k. None) idle_pool (fresh empty_store))"
  by (simp add: shutdown_calls_def main_ok before_def)

text \<open>
  Claim C3, amended. Whenever start-up reaches \<open>r.Run\<close>, the calls made when \<open>main\<close> returns
  are the shutdown of the meter provider and then the shutdown of the trace provider: the
  deferred calls run in the reverse of the order in which they were deferred.
\<close>

theorem shutdown_meter_before_tracer:
  assumes "main fails lookup stats w0 = Inr (w, deferred)"
  shows "shutdown_calls fails lookup stats w0 =
           [MeterProvider_Shutdown, TracerProvider_Shutdown] \<and>
         before MeterProvider_Shutdown TracerProvider_Shutdown
           (shutdown_calls fails lookup stats w0)"
proof -
  from assms have "deferred = [shutdownMetrics, shutdownTracer]"
    by (auto simp: main_def initTracer_def initMetrics_def Let_def
        split: sum.splits if_splits prod.splits)
  with assms show ?thesis
    by (simp add: shutdown_calls_def before_def)
qed

theorem shutdown_meter_before_tracer_witness:
  "shutdown_calls (\<lambda>c. False) (\<lambda>k. None) idle_pool (fresh empty_store) =
     [MeterProvider_Shutdown, TracerProvider_Shutdown] \<and>
   before MeterProvider_Shutdown TracerProvider_Shutdown
     (shutdown_calls (\<lambda>c. False) (\<lambda>k. None) idle_pool (fresh empty_store))"
  using shutdown_meter_before_tracer [OF main_ok, of "\<lambda>k. None" idle_pool empty_store]
  by (simp add: before_def)

text \<open>A fatal error during start-up exits the process without either call.\<close>

lemma no_shutdown_after_fatal:
  "main fails lookup stats w0 = Inl msg \<Longrightarrow> shutdown_calls fails lookup stats w0 = []"
  by (simp add: shutdown_calls_def)

section \<open>Claim C5: what the periodic samplers publish\<close>

text \<open>
  Claim C5, evaluated on the code. After two ticks of the process sampler that both read
  100 bytes of heap and 5 goroutines, \<open>memory_usage_bytes\<close> exports 200 and
  \<open>goroutine_count\<close> exports 10: each tick adds its reading to the sum. After a tick of the
  pool sampler that reads 3 open connections, \<open>db_connections_open\<close> exports 0: the tick
  adds the negated reading and the reading. The claim asks for 100, 5 and 3.
\<close>

theorem samplers_accumulate_or_stay_constant:
  "gauge memoryUsage [(''type'', AString ''heap'')]
     (collectSystemMetrics [reading, reading] (started empty_store)) = 200 \<and>
   gauge goroutineCount [(''type'', AString ''user'')]
     (collectSystemMetrics [reading, reading] (started empty_store)) = 10 \<and>
   gauge dbConnectionsOpen [] (trackDBConnections [busy_pool] (started empty_store)) = 0"
  by (simp add: Let_def gauge_emit gauge_started reading_def busy_pool_def)

text \<open>In general a tick of the pool sampler leaves the exported open-connection count where
  it was, and a tick of the process sampler adds the heap reading to the exported sum.\<close>

lemma pool_tick_net_zero:
  "gauge dbConnectionsOpen [] (trackDBConnections [stats] w) = gauge dbConnectionsOpen [] w"
  by (simp add: Let_def gauge_emit)

lemma process_tick_accumulates:
  "gauge memoryUsage [(''type'', AString ''heap'')] (collectSystemMetrics [s] w) =
     gauge memoryUsage [(''type'', AString ''heap'')] w + Alloc s"
  by (simp add: Let_def gauge_emit)

section \<open>Claim C6: what triggers the domain-count refresh\<close>

text \<open>When each database statement returns no error.\<close>

lemma Create_error:
  "(fst (fst (Create now t s)) = None) = (\<not> failing s)"
  "(\<exists>y. fst (fst (Create now t s)) = Some y) = failing s"
  by (simp_all add: Create_def Let_def)

lemma First_error:
  "(fst (fst (First i s)) = None) = (\<not> failing s \<and> stored i s \<noteq> None)"
  "(\<exists>y. fst (fst (First i s)) = Some y) = (failing s \<or> stored i s = None)"
  by (auto simp: First_def stored_def split: option.split)

lemma Save_error:
  "(fst (fst (Save t s)) = None) = (\<not> failing s)"
  "(\<exists>y. fst (fst (Save t s)) = Some y) = failing s"
  by (simp_all add: Save_def)

lemma Delete_error:
  "(fst (fst (Delete i s)) = None) = (\<not> failing s)"
  "(\<exists>y. fst (fst (Delete i s)) = Some y) = failing s"
  by (simp_all add: Delete_def)

lemma snd_First: "snd (First i s) = executed s"
  by (simp add: First_def split: option.split)

text \<open>Each mutating handler starts the refresh, and answers with its success status,
  exactly when its input is accepted and every database statement it runs returns no
  error.\<close>

lemma createTask_outcome:
  "spawned (snd (createTask r now d w)) =
     (if bind_CreateTaskInput (body r) \<noteq> None \<and> \<not> failing (DB w)
      then spawned w @ [GoUpdateTaskMetrics] else spawned w) \<and>
   (status (fst (createTask r now d w)) = 201) =
     (bind_CreateTaskInput (body r) \<noteq> None \<and> \<not> failing (DB w))"
  by (simp add: createTask_def Let_def split_beta TrackDBOperation_result spawned_go
      Create_error split: option.split)

lemma updateTask_outcome:
  "spawned (snd (updateTask r d1 d2 w)) =
     (if (case Atoi (id_param r) of
            None \<Rightarrow> False
          | Some i \<Rightarrow> \<not> failing (DB w) \<and> stored i (DB w) \<noteq> None \<and>
              bind_UpdateTaskInput (body r) \<noteq> None \<and> \<not> failing (executed (DB w)))
      then spawned w @ [GoUpdateTaskMetrics] else spawned w) \<and>
   (status (fst (updateTask r d1 d2 w)) = 200) =
     (case Atoi (id_param r) of
        None \<Rightarrow> False
      | Some i \<Rightarrow> \<not> failing (DB w) \<and> stored i (DB w) \<noteq> None \<and>
          bind_UpdateTaskInput (body r) \<noteq> None \<and> \<not> failing (executed (DB w)))"
  by (simp add: updateTask_def Let_def split_beta TrackDBOperation_result spawned_go
      First_error Save_error snd_First split: option.split)

lemma deleteTask_outcome:
  "spawned (snd (deleteTask r d w)) =
     (if Atoi (id_param r) \<noteq> None \<and> \<not> failing (DB w)
      then spawned w @ [GoUpdateTaskMetrics] else spawned w) \<and>
   (status (fst (deleteTask r d w)) = 204) =
     (Atoi (id_param r) \<noteq> None \<and> \<not> failing (DB w))"
  by (simp add: deleteTask_def Let_def split_beta TrackDBOperation_result spawned_go
      Delete_error split: option.split)

lemma tick_publishes_nothing:
  "task_publications (step (ProcessTick s) w) = task_publications w \<and>
   spawned (step (ProcessTick s) w) = spawned w \<and>
   task_publications (step (PoolTick stats) w) = task_publications w \<and>
   spawned (step (PoolTick stats) w) = spawned w"
  by (simp add: Let_def task_publications_emit spawned_emit)

lemma scheduled_refresh_publishes:
  "task_publications (step Scheduled w) =
     (if GoUpdateTaskMetrics \<in> set (spawned w)
      then task_publications w @
             [Add taskCount (- fst (Count (\<lambda>t. True) (DB w))) [],
              Add taskCount (fst (Count (\<lambda>t. True) (DB w))) [],
              Add completedTaskCount
                (- fst (Count Completed (snd (Count (\<lambda>t. True) (DB w))))) [],
              Add completedTaskCount
                (fst (Count Completed (snd (Count (\<lambda>t. True) (DB w))))) []]
      else task_publications w)"
  by (simp add: run_refresh_def task_publications_UpdateTaskMetrics
      task_publications_spawned_update)

text \<open>
  Claim C6 as stated fails. After start-up, a tick of the process sampler followed by a tick
  of the pool sampler, with no request in between, publishes nothing on \<open>tasks_total\<close> or
  \<open>tasks_completed_total\<close> beyond what start-up published, and starts no refresh: no
  schedule of its own drives the refresh.
\<close>

theorem no_periodic_refresh:
  "task_publications (run [ProcessTick reading, PoolTick busy_pool] (started empty_store)) =
     task_publications (started empty_store) \<and>
   GoUpdateTaskMetrics \<notin>
     set (spawned (run [ProcessTick reading, PoolTick busy_pool] (started empty_store)))"
  using tick_publishes_nothing [of reading "started empty_store" busy_pool]
        tick_publishes_nothing
          [of reading "step (ProcessTick reading) (started empty_store)" busy_pool]
  by (simp add: spawned_started del: step.simps)

text \<open>
  Claim C6, amended. The create, update and delete handlers start the refresh, as a
  goroutine, exactly when the request is accepted and every database statement the
  handler runs returns no error: for a create, the body binds and the insert succeeds;
  for an update, the key parses, the read finds the task, the body binds and the write
  succeeds; for a delete, the key parses and the delete succeeds. These are also exactly
  the requests answered 201, 200 and 204. When the scheduler runs a started refresh it
  publishes the two counts on the two gauges. The ticks of the two periodic samplers
  neither publish on these gauges nor start a refresh.
\<close>

theorem refresh_follows_successful_mutations:
  "spawned (snd (createTask rc now dc w)) =
     (if bind_CreateTaskInput (body rc) \<noteq> None \<and> \<not> failing (DB w)
      then spawned w @ [GoUpdateTaskMetrics] else spawned w) \<and>
   (status (fst (createTask rc now dc w)) = 201) =
     (bind_CreateTaskInput (body rc) \<noteq> None \<and> \<not> failing (DB w)) \<and>
   spawned (snd (updateTask ru d1 d2 w)) =
     (if (case Atoi (id_param ru) of
            None \<Rightarrow> False
          | Some i \<Rightarrow> \<not> failing (DB w) \<and> stored i (DB w) \<noteq> None \<and>
              bind_UpdateTaskInput (body ru) \<noteq> None \<and> \<not> failing (executed (DB w)))
      then spawned w @ [GoUpdateTaskMetrics] else spawned w) \<and>
   (status (fst (updateTask ru d1 d2 w)) = 200) =
     (case Atoi (id_param ru) of
        None \<Rightarrow> False
      | Some i \<Rightarrow> \<not> failing (DB w) \<and> stored i (DB w) \<noteq> None \<and>
          bind_UpdateTaskInput (body ru) \<noteq> None \<and> \<not> failing (executed (DB w))) \<and>
   spawned (snd (deleteTask rd dd w)) =
     (if Atoi (id_param rd) \<noteq> None \<and> \<not> failing (DB w)
      then spawned w @ [GoUpdateTaskMetrics] else spawned w) \<and>
   (status (fst (deleteTask rd dd w)) = 204) =
     (Atoi (id_param rd) \<noteq> None \<and> \<not> failing (DB w)) \<and>
   task_publications (step Scheduled w) =
     (if GoUpdateTaskMetrics \<in> set (spawned w)
      then task_publications w @
             [Add taskCount (- fst (Count (\<lambda>t. True) (DB w))) [],
              Add taskCount (fst (Count (\<lambda>t. True) (DB w))) [],
              Add completedTaskCount
                (- fst (Count Completed (snd (Count (\<lambda>t. True) (DB w))))) [],
              Add completedTaskCount
                (fst (Count Completed (snd (Count (\<lambda>t. True) (DB w))))) []]
      else task_publications w) \<and>
   task_publications (step (ProcessTick s) w) = task_publications w \<and>
   spawned (step (ProcessTick s) w) = spawned w \<and>
   task_publications (step (PoolTick stats) w) = task_publications w \<and>
   spawned (step (PoolTick stats) w) = spawned w"
proof -
  note create = createTask_outcome [of rc now dc w]
  note update = updateTask_outcome [of ru d1 d2 w]
  note delete = deleteTask_outcome [of rd dd w]
  note sched = scheduled_refresh_publishes [of w]
  note tick = tick_publishes_nothing [of s w stats]
  show ?thesis
    by (intro conjI)
       (rule create [THEN conjunct1], rule create [THEN conjunct2],
        rule update [THEN conjunct1], rule update [THEN conjunct2],
        rule delete [THEN conjunct1], rule delete [THEN conjunct2],
        rule sched,
        rule tick [THEN conjunct1],
        rule tick [THEN conjunct2, THEN conjunct1],
        rule tick [THEN conjunct2, THEN conjunct2, THEN conjunct1],
        rule tick [THEN conjunct2, THEN conjunct2, THEN conjunct2])
qed

lemma bind_post_a: "bind_CreateTaskInput (body post_a) \<noteq> None"
  by (simp add: post_a_def bind_CreateTaskInput_def)

lemma not_failing_started: "faults s = [] \<Longrightarrow> \<not> failing (DB (started s))"
  by (simp add: DB_started failing_no_faults)

lemma update_accepted:
  "(case Atoi (id_param put_done) of
      None \<Rightarrow> False
    | Some i \<Rightarrow> \<not> failing (DB (started one_task)) \<and> stored i (DB (started one_task)) \<noteq> None \<and>
        bind_UpdateTaskInput (body put_done) \<noteq> None \<and>
        \<not> failing (executed (DB (started one_task))))"
  by (simp add: put_done_def Atoi_1 DB_started bind_UpdateTaskInput_def one_task_def
      stored_def task_a_def failing_def executed_def)

lemma delete_accepted: "Atoi (id_param delete_1) \<noteq> None"
  by (simp add: delete_1_def Atoi_1)

lemma failing_refused: "failing (DB refused)"
  by (simp add: refused_def failing_def)

lemma spawned_refused: "spawned refused = [GoCollectSystemMetrics, GoTrackDBConnections]"
  by (simp add: refused_def spawned_started)

theorem refresh_follows_successful_mutations_witness:
  "spawned (snd (createTask post_a 7 3 (started empty_store))) =
     [GoCollectSystemMetrics, GoTrackDBConnections, GoUpdateTaskMetrics] \<and>
   status (fst (createTask post_a 7 3 (started empty_store))) = 201 \<and>
   spawned (snd (updateTask put_done 2 2 (started one_task))) =
     [GoCollectSystemMetrics, GoTrackDBConnections, GoUpdateTaskMetrics] \<and>
   status (fst (updateTask put_done 2 2 (started one_task))) = 200 \<and>
   spawned (snd (deleteTask delete_1 4 (started one_task))) =
     [GoCollectSystemMetrics, GoTrackDBConnections, GoUpdateTaskMetrics] \<and>
   status (fst (deleteTask delete_1 4 (started one_task))) = 204 \<and>
   spawned (snd (createTask post_a 7 3 refused)) =
     [GoCollectSystemMetrics, GoTrackDBConnections] \<and>
   status (fst (createTask post_a 7 3 refused)) \<noteq> 201 \<and>
   spawned (snd (deleteTask delete_1 4 refused)) =
     [GoCollectSystemMetrics, GoTrackDBConnections] \<and>
   task_publications (step (ProcessTick reading) (started empty_store)) =
     task_publications (started empty_store)"
proof -
  have e: "\<not> failing (DB (started empty_store))"
    by (rule not_failing_started) (simp add: empty_store_def)
  have o: "\<not> failing (DB (started one_task))"
    by (rule not_failing_started) (simp add: one_task_def)
  show ?thesis
    using refresh_follows_successful_mutations
            [where rc = post_a and now = 7 and dc = 3 and w = "started empty_store"
               and s = reading]
          refresh_follows_successful_mutations
            [where ru = put_done and ?d1.0 = 2 and ?d2.0 = 2 and rd = delete_1 and dd = 4
               and w = "started one_task"]
          refresh_follows_successful_mutations
            [where rc = post_a and now = 7 and dc = 3 and rd = delete_1 and dd = 4
               and w = refused]
    by (simp add: e o bind_post_a update_accepted delete_accepted failing_refused
        spawned_refused spawned_started del: step.simps)
qed

section \<open>Claim C8: names and units of the instruments\<close>

lemma register_all_Inr:
  "register_all fails ds acc = Inr reg \<Longrightarrow> reg = acc @ map (\<lambda>(v, i, m). (v, i)) ds"
proof (induction ds arbitrary: acc)
  case Nil
  then show ?case by simp
next
  case (Cons d ds)
  obtain v i m where d: "d = (v, i, m)"
    by (cases d)
  from Cons.prems d have "register_all fails ds (acc @ [(v, i)]) = Inr reg"
    by (simp split: if_splits)
  from Cons.IH [OF this] d show ?case
    by simp
qed

lemma initializeMetrics_ok:
  "initializeMetrics (\<lambda>c. False) = Inr (map (\<lambda>(v, i, m). (v, i)) declarations)"
  by (simp add: initializeMetrics_def declarations_def)

text \<open>
  Claim C8 as stated fails. The names and units registered when no declaration is refused
  are not the list of the specification: the three byte-valued instruments are not
  registered with the unit \<open>bytes\<close>.
\<close>

theorem registered_units_differ_from_spec:
  "(case initializeMetrics (\<lambda>c. False) of
      Inl msg \<Rightarrow> []
    | Inr reg \<Rightarrow> names_and_units reg) \<noteq> spec_names_and_units"
  by (simp add: initializeMetrics_ok names_and_units_def declarations_def
      spec_names_and_units_def)

text \<open>
  Claim C8, amended. Whenever \<open>initializeMetrics\<close> returns, the registered instruments
  have, in this order, the names of the specification's list and its units, except that
  \<open>http_request_size_bytes\<close>, \<open>http_response_size_bytes\<close> and \<open>memory_usage_bytes\<close> have the
  unit \<open>By\<close>.
\<close>

theorem registered_names_and_units:
  assumes "initializeMetrics fails = Inr reg"
  shows "names_and_units reg =
     [(''http_requests_total'', ''{request}''),
      (''http_request_duration_seconds'', ''s''),
      (''http_request_size_bytes'', ''By''),
      (''http_response_size_bytes'', ''By''),
      (''http_active_requests'', ''{request}''),
      (''db_operations_total'', ''{operation}''),
      (''db_operation_duration_seconds'', ''s''),
      (''db_connections_open'', ''{connection}''),
      (''tasks_total'', ''{task}''),
      (''tasks_completed_total'', ''{task}''),
      (''memory_usage_bytes'', ''By''),
      (''goroutine_count'', ''{goroutine}'')]"
proof -
  from assms have "reg = map (\<lambda>(v, i, m). (v, i)) declarations"
    using register_all_Inr [of fails declarations "[]" reg]
    by (simp add: initializeMetrics_def)
  then show ?thesis
    by (simp add: names_and_units_def declarations_def)
qed

theorem registered_names_and_units_witness:
  "initializeMetrics (\<lambda>c. False) = Inr (map (\<lambda>(v, i, m). (v, i)) declarations) \<and>
   names_and_units (map (\<lambda>(v, i, m). (v, i)) declarations) ! 2 =
     (''http_request_size_bytes'', ''By'')"
  using registered_names_and_units [OF initializeMetrics_ok] initializeMetrics_ok
  by simp

section \<open>Claim C9: what an update leaves alone\<close>

lemma find_ID:
  "find (\<lambda>t. ID t = i) xs = Some t \<Longrightarrow> ID t = i \<and> list_ex (\<lambda>r. ID r = i) xs"
  by (induction xs) (auto split: if_splits)

lemma find_replace_same:
  "find (\<lambda>t. ID t = i) xs = Some t \<Longrightarrow> ID t2 = i \<Longrightarrow>
   find (\<lambda>t. ID t = i) (map (\<lambda>r. if ID r = i then t2 else r) xs) = Some t2"
  by (induction xs) (auto split: if_splits)

lemma find_replace_other:
  "j \<noteq> i \<Longrightarrow> ID t2 = i \<Longrightarrow>
   find (\<lambda>t. ID t = j) (map (\<lambda>r. if ID r = i then t2 else r) xs) =
     find (\<lambda>t. ID t = j) xs"
  by (induction xs) auto

lemma patched_keeps:
  "ID (patched input t) = ID t"
  "CreatedAt (patched input t) = CreatedAt t"
  "title input = None \<Longrightarrow> Title (patched input t) = Title t"
  "completed input = None \<Longrightarrow> Completed (patched input t) = Completed t"
  by (simp_all add: patched_def Let_def split: option.split)

text \<open>The table after \<open>updateTask\<close> on an existing task: the row of the task is replaced by
  the patched task when both statements succeed, and the table is as before otherwise.\<close>

lemma rows_updateTask:
  assumes "Atoi (id_param r) = Some i" and "stored i (DB w) = Some t"
    and "body r = Some input"
  shows "rows (DB (snd (updateTask r d1 d2 w))) =
     (if failing (DB w) \<or> failing (executed (DB w)) then rows (DB w)
      else map (\<lambda>r. if ID r = i then patched input t else r) (rows (DB w)))"
proof -
  from assms(2) have t: "ID t = i" "list_ex (\<lambda>r. ID r = i) (rows (DB w))"
    using find_ID [of i "rows (DB w)" t] by (simp_all add: stored_def)
  show ?thesis
  proof (cases "failing (DB w)")
    case True
    then show ?thesis
      using assms(1)
      by (simp add: updateTask_def Let_def split_beta TrackDBOperation_result First_def
          rows_executed)
  next
    case False
    with assms(2) have first: "First i (DB w) = ((None, t), executed (DB w))"
      by (simp add: First_def stored_def)
    have save: "rows (snd (Save (patched input t) (executed (DB w)))) =
        (if failing (executed (DB w)) then rows (DB w)
         else map (\<lambda>r. if ID r = i then patched input t else r) (rows (DB w)))"
      using t by (simp add: Save_def patched_keeps rows_executed)
    from False show ?thesis
      using assms(1,3) first save
      by (simp add: updateTask_def Let_def split_beta TrackDBOperation_result
          bind_UpdateTaskInput_def DB_go patched_def [symmetric, unfolded Let_def])
  qed
qed

text \<open>
  Claim C9. \<open>updateTask\<close> is called for the key of a stored task with a body that
  decodes. Whatever the database does, afterwards the task stored under that key has its
  previous title when the input has no title and its previous completed flag when the
  input has no completed flag; its key and creation time are as before, and the row
  stored under any other key is the one stored before.
\<close>

theorem updateTask_keeps_absent_fields:
  assumes "Atoi (id_param r) = Some i" and "stored i (DB w) = Some t"
    and "body r = Some input"
  shows "(title input = None \<longrightarrow>
            map_option Title (stored i (DB (snd (updateTask r d1 d2 w)))) =
              Some (Title t)) \<and>
         (completed input = None \<longrightarrow>
            map_option Completed (stored i (DB (snd (updateTask r d1 d2 w)))) =
              Some (Completed t)) \<and>
         map_option ID (stored i (DB (snd (updateTask r d1 d2 w)))) = Some (ID t) \<and>
         map_option CreatedAt (stored i (DB (snd (updateTask r d1 d2 w)))) =
           Some (CreatedAt t) \<and>
         (\<forall>j. j \<noteq> i \<longrightarrow>
            stored j (DB (snd (updateTask r d1 d2 w))) = stored j (DB w))"
proof (cases "failing (DB w) \<or> failing (executed (DB w))")
  case True
  then have "rows (DB (snd (updateTask r d1 d2 w))) = rows (DB w)"
    using rows_updateTask [OF assms, of d1 d2] by simp
  then show ?thesis
    using assms(2) by (simp add: stored_def)
next
  case False
  then have rows': "rows (DB (snd (updateTask r d1 d2 w))) =
      map (\<lambda>r. if ID r = i then patched input t else r) (rows (DB w))"
    using rows_updateTask [OF assms, of d1 d2] by simp
  have same: "stored i (DB (snd (updateTask r d1 d2 w))) = Some (patched input t)"
    using rows' assms(2) find_replace_same [of i "rows (DB w)" t "patched input t"]
      find_ID [of i "rows (DB w)" t]
    by (simp add: stored_def patched_keeps)
  have other: "stored j (DB (snd (updateTask r d1 d2 w))) = stored j (DB w)"
    if "j \<noteq> i" for j
    using rows' assms(2) that find_replace_other [of j i "patched input t" "rows (DB w)"]
      find_ID [of i "rows (DB w)" t]
    by (simp add: stored_def patched_keeps)
  show ?thesis
    using same other by (simp add: patched_keeps)
qed

theorem updateTask_keeps_absent_fields_witness:
  "Atoi (id_param put_done) = Some 1 \<and>
   stored 1 (DB (started one_task)) = Some task_a \<and>
   body put_done = Some \<lparr>title = None, completed = Some True\<rparr> \<and>
   map_option Title (stored 1 (DB (snd (updateTask put_done 2 2 (started one_task))))) =
     Some ''a'' \<and>
   stored 1 (DB (snd (updateTask put_done 2 2 (started one_task)))) =
     Some (task_a\<lparr>Completed := True\<rparr>)"
proof -
  have a: "Atoi (id_param put_done) = Some 1"
    by (simp add: put_done_def Atoi_1)
  have b: "stored 1 (DB (started one_task)) = Some task_a"
    by (simp add: DB_started one_task_def stored_def task_a_def)
  have c: "body put_done = Some \<lparr>title = None, completed = Some True\<rparr>"
    by (simp add: put_done_def)
  have d: "stored 1 (DB (snd (updateTask put_done 2 2 (started one_task)))) =
     Some (task_a\<lparr>Completed := True\<rparr>)"
    by (simp add: updateTask_def a c bind_UpdateTaskInput_def Let_def split_beta
        TrackDBOperation_result DB_go DB_started First_def Save_def one_task_def stored_def
        task_a_def failing_def executed_def)
  show ?thesis
    using updateTask_keeps_absent_fields [OF a b c, of 2 2] a b c d
    by (simp add: task_a_def)
qed

section \<open>Claim C10: the refresh after a list request\<close>

text \<open>
  Claim C10. When the query of \<open>getTasks\<close> returns no error, the handler answers 200 and
  starts one \<open>UpdateTaskMetrics\<close> goroutine; the handler itself publishes nothing on the
  domain-count gauges, the refresh does when the scheduler runs it.
\<close>

theorem getTasks_starts_refresh:
  assumes "fst (fst (Find_ordered (DB w))) = None"
  shows "status (fst (getTasks d w)) = 200 \<and>
     spawned (snd (getTasks d w)) = spawned w @ [GoUpdateTaskMetrics] \<and>
     task_publications (snd (getTasks d w)) = task_publications w \<and>
     length (task_publications (step Scheduled (snd (getTasks d w)))) =
       length (task_publications w) + 4"
proof -
  from assms have "status (fst (getTasks d w)) = 200"
    and sp: "spawned (snd (getTasks d w)) = spawned w @ [GoUpdateTaskMetrics]"
    and tp: "task_publications (snd (getTasks d w)) = task_publications w"
    by (simp_all add: getTasks_def Let_def split_beta TrackDBOperation_result spawned_go
        task_publications_go task_publications_TrackDBOperation)
  moreover have "length (task_publications (step Scheduled (snd (getTasks d w)))) =
       length (task_publications w) + 4"
    using sp tp
    by (simp add: run_refresh_def task_publications_UpdateTaskMetrics
        task_publications_spawned_update)
  ultimately show ?thesis
    by simp
qed

text \<open>When the query fails the handler answers 500 and starts nothing.\<close>

lemma getTasks_failure:
  "fst (fst (Find_ordered (DB w))) \<noteq> None \<Longrightarrow>
   status (fst (getTasks d w)) = 500 \<and> spawned (snd (getTasks d w)) = spawned w"
  by (simp add: getTasks_def Let_def split_beta TrackDBOperation_result)

theorem getTasks_starts_refresh_witness:
  "fst (fst (Find_ordered (DB (started empty_store)))) = None \<and>
   status (fst (getTasks 5 (started empty_store))) = 200 \<and>
   spawned (snd (getTasks 5 (started empty_store))) =
     [GoCollectSystemMetrics, GoTrackDBConnections, GoUpdateTaskMetrics]"
proof -
  have a: "fst (fst (Find_ordered (DB (started empty_store)))) = None"
    by (simp add: DB_started Find_ordered_def empty_store_def failing_def)
  show ?thesis
    using getTasks_starts_refresh [OF a, of 5] a
    by (simp add: spawned_started)
qed

end
